theory Spec2Isabelle
  imports Main "HOL-Library.Sublist"
begin

section \<open>Data model of the grid layout engine (gridwrinkl\_cli.py)\<close>

text \<open>
  Python exceptions that the modelled functions can raise. None of the modelled functions
  catches an exception, so an exception ends the call and is its result (\<open>Inl\<close>).
\<close>

datatype py_error = IndexError | FileNotFoundError

text \<open>
  A zone is the JSON object \<^verbatim>\<open>{"x": .., "y": .., "width": .., "height": ..}\<close>; the fields
  carry the names that \<^verbatim>\<open>_place_blocks_in_zone\<close> gives them. JSON integers are unbounded and
  may be negative.
\<close>

record zone =
  zone_x :: int
  zone_y :: int
  zone_w :: int
  zone_h :: int

record grid_size =
  width :: int
  height :: int

text \<open>
  A block is the dictionary built in \<^verbatim>\<open>_create_initial_grid_layout\<close>, with the keys
  \<^verbatim>\<open>path, name, type, category, size, modified, placed\<close> and the optional key
  \<^verbatim>\<open>position\<close> (\<open>None\<close>: the key is absent). \<open>modified\<close> is the modification time as a
  count of microseconds (the source stores its ISO-8601 rendering).
\<close>

record block =
  path :: string
  name :: string
  ftype :: string
  category :: string
  fsize :: nat
  modified :: int
  placed :: bool
  position :: "(int \<times> int) option"

text \<open>
  The \<^verbatim>\<open>stats\<close> object. The two count dictionaries keep Python's insertion order, so they
  are association lists.
\<close>

record stats =
  total_files :: nat
  placed_files :: nat
  by_category :: "(string \<times> nat) list"
  by_type :: "(string \<times> nat) list"

text \<open>
  A layout document is a JSON object. Every top-level key may be absent from a document
  read from disk (\<open>None\<close>); the layouts built by the engine carry all six keys.
  \<open>zones\<close> is the dictionary zone name \<open>\<rightarrow>\<close> rectangle, read with \<open>map_of\<close>.
\<close>

record layout =
  version :: "string option"
  timestamp :: "string option"
  grid_size :: "grid_size option"
  zones :: "(string \<times> zone) list option"
  blocks :: "block list option"
  stats :: "stats option"

section \<open>Classifier: \<^verbatim>\<open>_analyze_file\<close>\<close>

text \<open>
  What \<^verbatim>\<open>pathlib\<close> and \<^verbatim>\<open>stat\<close> report about one file: \<open>rel_path\<close> is
  \<^verbatim>\<open>str(file_path.relative_to(self.project_path))\<close>, \<open>str_path\<close> is \<^verbatim>\<open>str(file_path)\<close>,
  \<open>file_name\<close> is \<^verbatim>\<open>file_path.name\<close>, \<open>path_suffix\<close> is \<^verbatim>\<open>file_path.suffix\<close>,
  \<open>st_mtime\<close> is \<^verbatim>\<open>datetime.fromtimestamp(stats.st_mtime)\<close> in microseconds and
  \<open>st_size\<close> is the byte length.
\<close>

record file_entry =
  rel_path :: string
  str_path :: string
  file_name :: string
  path_suffix :: string
  st_mtime :: int
  st_size :: nat

record file_info =
  info_type :: string
  info_category :: string
  info_size :: nat
  info_modified :: int

text \<open>\<^verbatim>\<open>str.lower\<close> on the ASCII letters.\<close>

definition lower_char :: "char \<Rightarrow> char" where
  "lower_char c =
     (let n = (of_char c :: nat) in if 65 \<le> n \<and> n \<le> 90 then char_of (n + 32) else c)"

definition lower :: "string \<Rightarrow> string" where
  "lower s = map lower_char s"

definition file_type_of :: "string \<Rightarrow> string" where
  "file_type_of ext =
     (if ext \<in> set [''.py'', ''.js'', ''.ts'', ''.java'', ''.c'', ''.cpp'', ''.go'', ''.rs'']
        then ''code''
      else if ext \<in> set [''.md'', ''.txt'', ''.doc'', ''.docx'', ''.pdf''] then ''document''
      else if ext \<in> set [''.json'', ''.yaml'', ''.yml'', ''.toml'', ''.ini'', ''.config'']
        then ''config''
      else if ext \<in> set [''.jpg'', ''.png'', ''.gif'', ''.svg'', ''.webp''] then ''image''
      else if ext \<in> set [''.html'', ''.css'', ''.scss'', ''.sass''] then ''web''
      else if ext \<in> set [''.sql'', ''.db''] then ''database''
      else if ext \<in> set [''.zip'', ''.tar'', ''.gz'', ''.rar''] then ''archive''
      else ''unknown'')"

text \<open>One day in microseconds; \<^verbatim>\<open>timedelta.days\<close> is the floor of the difference in days.\<close>

definition day :: int where
  "day = 86400000000"

definition days_since_modified :: "int \<Rightarrow> int \<Rightarrow> int" where
  "days_since_modified now mtime = (now - mtime) div day"

definition category_by_age :: "int \<Rightarrow> string" where
  "category_by_age d = (if d < 7 then ''active'' else if d < 30 then ''pending'' else ''archive'')"

text \<open>The three \<^verbatim>\<open>if/elif\<close> branches of the "special files" block, in source order.\<close>

definition special_category :: "string \<Rightarrow> string \<Rightarrow> string" where
  "special_category nm cat =
     (if prefix ''README'' nm then ''resources''
      else if nm \<in> set [''requirements.txt'', ''package.json'', ''setup.py''] then ''resources''
      else if prefix ''test_'' nm \<or> suffix ''_test.py'' nm then ''resources''
      else cat)"

text \<open>\<open>now\<close> is the reading of \<^verbatim>\<open>datetime.datetime.now()\<close> taken inside the call.\<close>

definition analyze_file :: "int \<Rightarrow> file_entry \<Rightarrow> file_info" where
  "analyze_file now f =
     \<lparr>info_type = file_type_of (lower (path_suffix f)),
      info_category =
        special_category (file_name f) (category_by_age (days_since_modified now (st_mtime f))),
      info_size = st_size f,
      info_modified = st_mtime f\<rparr>"

section \<open>Fresh build: \<^verbatim>\<open>_create_initial_grid_layout\<close>\<close>

text \<open>
  \<^verbatim>\<open>self.config\<close> as \<^verbatim>\<open>_create_config\<close> builds it; only the two keys that the layout
  engine reads are kept.
\<close>

record config =
  cfg_grid_size :: grid_size
  cfg_zones :: "(string \<times> zone) list"

definition default_grid_size :: grid_size where
  "default_grid_size = \<lparr>width = 12, height = 8\<rparr>"

definition default_zones :: "(string \<times> zone) list" where
  "default_zones =
     [(''active'', \<lparr>zone_x = 0, zone_y = 0, zone_w = 6, zone_h = 4\<rparr>),
      (''resources'', \<lparr>zone_x = 6, zone_y = 0, zone_w = 6, zone_h = 4\<rparr>),
      (''archive'', \<lparr>zone_x = 0, zone_y = 4, zone_w = 12, zone_h = 4\<rparr>)]"

definition default_config :: config where
  "default_config = \<lparr>cfg_grid_size = default_grid_size, cfg_zones = default_zones\<rparr>"

text \<open>
  One step of the counting loops: \<^verbatim>\<open>if k in counts: counts[k] += 1 else: counts[k] = 1\<close>.
  A new key goes to the end, an old key keeps its place.
\<close>

fun count_key :: "string \<Rightarrow> (string \<times> nat) list \<Rightarrow> (string \<times> nat) list" where
  "count_key k [] = [(k, 1)]"
| "count_key k ((k', n) # rest) =
     (if k' = k then (k', n + 1) # rest else (k', n) # count_key k rest)"

definition category_counts :: "block list \<Rightarrow> (string \<times> nat) list" where
  "category_counts bs = foldl (\<lambda>counts b. count_key (category b) counts) [] bs"

definition type_counts :: "block list \<Rightarrow> (string \<times> nat) list" where
  "type_counts bs = foldl (\<lambda>counts b. count_key (ftype b) counts) [] bs"

text \<open>The dictionary appended to \<^verbatim>\<open>file_blocks\<close> for one file.\<close>

definition file_block :: "int \<Rightarrow> file_entry \<Rightarrow> block" where
  "file_block now f =
     (let file_info = analyze_file now f
      in \<lparr>path = rel_path f, name = file_name f, ftype = info_type file_info,
          category = info_category file_info, fsize = info_size file_info,
          modified = info_modified file_info, placed = False, position = None\<rparr>)"

text \<open>
  \<open>files\<close> pairs every file with the clock reading of its own \<^verbatim>\<open>_analyze_file\<close> call;
  \<open>now_iso\<close> is \<^verbatim>\<open>datetime.datetime.now().isoformat()\<close> at the time the layout is built.
\<close>

definition create_initial_grid_layout ::
  "config \<Rightarrow> string \<Rightarrow> (int \<times> file_entry) list \<Rightarrow> layout" where
  "create_initial_grid_layout cfg now_iso files =
     (let file_blocks = map (\<lambda>(now, f). file_block now f) files
      in \<lparr>version = Some ''1.0.0'', timestamp = Some now_iso,
          grid_size = Some (cfg_grid_size cfg), zones = Some (cfg_zones cfg),
          blocks = Some file_blocks,
          stats = Some \<lparr>total_files = length file_blocks, placed_files = 0,
                        by_category = category_counts file_blocks,
                        by_type = type_counts file_blocks\<rparr>\<rparr>)"

definition ignore_patterns :: "string list" where
  "ignore_patterns =
     [''.git'', ''__pycache__'', ''.venv'', ''node_modules'',
      ''.ai'', ''.gridfile'', ''.tmp'', ''dist'', ''build'']"

definition should_ignore_file :: "file_entry \<Rightarrow> bool" where
  "should_ignore_file f = list_ex (\<lambda>pattern. sublist pattern (str_path f)) ignore_patterns"

section \<open>Zone placer: \<^verbatim>\<open>_place_blocks_in_zone\<close>\<close>

text \<open>
  Python list indexing: an index \<open>i\<close> with \<open>-n \<le> i < 0\<close> counts from the end, anything
  outside \<open>-n \<le> i < n\<close> raises \<^verbatim>\<open>IndexError\<close>.
\<close>

definition norm_index :: "nat \<Rightarrow> int \<Rightarrow> nat option" where
  "norm_index n i =
     (if 0 \<le> i \<and> i < int n then Some (nat i)
      else if - int n \<le> i \<and> i < 0 then Some (nat (int n + i))
      else None)"

definition getitem :: "'a list \<Rightarrow> int \<Rightarrow> py_error + 'a" where
  "getitem xs i = (case norm_index (length xs) i of None \<Rightarrow> Inl IndexError | Some j \<Rightarrow> Inr (xs ! j))"

text \<open>\<^verbatim>\<open>grid[y][x] = True\<close>; the rows of the grid are separate list objects.\<close>

definition mark_cell :: "bool list list \<Rightarrow> int \<Rightarrow> int \<Rightarrow> py_error + bool list list" where
  "mark_cell grid y x =
     (case norm_index (length grid) y of
        None \<Rightarrow> Inl IndexError
      | Some j \<Rightarrow>
          (case norm_index (length (grid ! j)) x of
             None \<Rightarrow> Inl IndexError
           | Some k \<Rightarrow> Inr (grid[j := (grid ! j)[k := True]])))"

text \<open>
  The cells that the two nested \<^verbatim>\<open>for\<close> loops visit, as \<open>(x, y)\<close>, in the order of the
  visit: \<open>y\<close> outer, \<open>x\<close> inner.
\<close>

definition zone_cells :: "zone \<Rightarrow> (int \<times> int) list" where
  "zone_cells zone =
     concat (map (\<lambda>y. map (\<lambda>x. (x, y)) [zone_x zone .. zone_x zone + zone_w zone - 1])
                 [zone_y zone .. zone_y zone + zone_h zone - 1])"

text \<open>
  The loop body over the remaining cells. The state is the list \<open>blks\<close> (the caller's \<^verbatim>\<open>blocks\<close>
  list object, from whose front \<^verbatim>\<open>blocks.pop(0)\<close> removes), the grid, and \<open>popped\<close>: the
  dictionaries that were popped and then given \<^verbatim>\<open>placed = True\<close> and a \<^verbatim>\<open>position\<close>. The
  source function returns \<^verbatim>\<open>None\<close>; the popped dictionaries are in no list afterwards.
\<close>

fun place_cells ::
  "(int \<times> int) list \<Rightarrow> block list \<Rightarrow> block list \<Rightarrow> bool list list
     \<Rightarrow> py_error + (block list \<times> block list \<times> bool list list)" where
  "place_cells [] popped blks grid = Inr (popped, blks, grid)"
| "place_cells ((x, y) # cells) popped blks grid =
     (if y \<ge> int (length grid) then place_cells cells popped blks grid
      else
        (case getitem grid 0 of
           Inl e \<Rightarrow> Inl e
         | Inr row0 \<Rightarrow>
             if x \<ge> int (length row0) then place_cells cells popped blks grid
             else
               (case getitem grid y of
                  Inl e \<Rightarrow> Inl e
                | Inr row \<Rightarrow>
                    (case getitem row x of
                       Inl e \<Rightarrow> Inl e
                     | Inr occupied \<Rightarrow>
                         if occupied then place_cells cells popped blks grid
                         else
                           (case blks of
                              [] \<Rightarrow> Inr (popped, blks, grid)
                            | b # rest \<Rightarrow>
                                (case mark_cell grid y x of
                                   Inl e \<Rightarrow> Inl e
                                 | Inr grid' \<Rightarrow>
                                     place_cells cells
                                       (popped @ [b\<lparr>placed := True, position := Some (x, y)\<rparr>])
                                       rest grid'))))))"

definition place_blocks_in_zone ::
  "block list \<Rightarrow> zone \<Rightarrow> bool list list
     \<Rightarrow> py_error + (block list \<times> block list \<times> bool list list)" where
  "place_blocks_in_zone blks zone grid = place_cells (zone_cells zone) [] blks grid"

section \<open>Reorganization: \<^verbatim>\<open>_reorganize_blocks\<close>\<close>

definition category_to_zone :: "(string \<times> string) list" where
  "category_to_zone =
     [(''active'', ''active''), (''pending'', ''active''),
      (''archive'', ''archive''), (''completed'', ''archive''),
      (''resources'', ''resources''), (''reference'', ''resources'')]"

text \<open>\<^verbatim>\<open>self.category_to_zone.get(category, "archive")\<close>\<close>

definition zone_name_of :: "string \<Rightarrow> string" where
  "zone_name_of cat = (case map_of category_to_zone cat of None \<Rightarrow> ''archive'' | Some z \<Rightarrow> z)"

text \<open>
  \<^verbatim>\<open>categorized_blocks\<close> is a dictionary category \<open>\<rightarrow>\<close> list in insertion order. One step
  of the grouping loop appends the copy of the block to the list of its category, at the
  end of the dictionary when the category is new.
\<close>

fun add_to_category :: "block \<Rightarrow> (string \<times> block list) list \<Rightarrow> (string \<times> block list) list" where
  "add_to_category b [] = [(category b, [b])]"
| "add_to_category b ((cat, bs) # rest) =
     (if cat = category b then (cat, bs @ [b]) # rest else (cat, bs) # add_to_category b rest)"

definition categorize :: "block list \<Rightarrow> (string \<times> block list) list" where
  "categorize bs = foldl (\<lambda>categorized b. add_to_category b categorized) [] bs"

text \<open>\<^verbatim>\<open>block["placed"] = False\<close> and \<^verbatim>\<open>del block["position"]\<close> when the key is there.\<close>

definition unplace :: "block \<Rightarrow> block" where
  "unplace b = b\<lparr>placed := False, position := None\<rparr>"

text \<open>
  The placement loop over \<^verbatim>\<open>categorized_blocks.items()\<close>. The list of a group is the list
  object handed to \<^verbatim>\<open>_place_blocks_in_zone\<close>, so what stays in the dictionary for the group
  is what the pops left; the popped dictionaries are not collected.
\<close>

fun place_groups ::
  "(string \<times> block list) list \<Rightarrow> (string \<times> zone) list \<Rightarrow> bool list list
     \<Rightarrow> py_error + ((string \<times> block list) list \<times> bool list list)" where
  "place_groups [] zs grid = Inr ([], grid)"
| "place_groups ((cat, blocks_list) # rest) zs grid =
     (case map_of zs (zone_name_of cat) of
        None \<Rightarrow>
          (case place_groups rest zs grid of
             Inl e \<Rightarrow> Inl e
           | Inr (rest', grid') \<Rightarrow> Inr ((cat, blocks_list) # rest', grid'))
      | Some zone \<Rightarrow>
          (case place_blocks_in_zone blocks_list zone grid of
             Inl e \<Rightarrow> Inl e
           | Inr (popped, remaining, grid1) \<Rightarrow>
               (case place_groups rest zs grid1 of
                  Inl e \<Rightarrow> Inl e
                | Inr (rest', grid') \<Rightarrow> Inr ((cat, remaining) # rest', grid'))))"

definition empty_grid :: "grid_size \<Rightarrow> bool list list" where
  "empty_grid gs = replicate (nat (height gs)) (replicate (nat (width gs)) False)"

definition reorganize_blocks ::
  "block list \<Rightarrow> (string \<times> zone) list \<Rightarrow> grid_size \<Rightarrow> py_error + block list" where
  "reorganize_blocks bs zs gs =
     (let grid = empty_grid gs;
          categorized_blocks = map (\<lambda>(cat, blocks_list). (cat, map unplace blocks_list)) (categorize bs)
      in case place_groups categorized_blocks zs grid of
           Inl e \<Rightarrow> Inl e
         | Inr (categorized_blocks', grid') \<Rightarrow> Inr (concat (map snd categorized_blocks')))"

section \<open>Layout store and \<^verbatim>\<open>grid_reorganize\<close>\<close>

text \<open>
  The part of the project directory that the layout engine touches. A directory is
  \<open>None\<close> when it does not exist and otherwise maps file names to contents; the contents
  of a layout file is the JSON object it holds. \<open>console\<close> is what has been printed and
  \<open>io_trace\<close> lists the completed file operations, oldest first.
\<close>

datatype directory = LayoutsDir | BackupsDir

type_synonym file_path = "directory \<times> string"

datatype fs_op = Copied file_path file_path | Wrote file_path

text \<open>
  The console messages of the modelled functions, by meaning (the source prints Korean
  text): not initialised, run init first; reorganising the grid layout; the grid layout
  file cannot be found; rearranging the blocks to improve grid efficiency; grid efficiency
  improved, with \<^verbatim>\<open>old_placed\<close>, \<^verbatim>\<open>new_placed\<close> and \<^verbatim>\<open>len(blocks)\<close> from which the two
  percentages are printed; the grid layout has been reorganised; scanning the project
  files; the number of files found.
\<close>

datatype message =
  NotInitialized
| ReorganizingLayout
| LayoutFileNotFound
| RearrangingBlocks
| EfficiencyImproved nat nat nat
| LayoutReorganized
| ScanningFiles
| FilesFound nat

datatype log_line = LogInfo message | LogSuccess message | LogError message

record project =
  gridfile_dir :: bool
  ai_dir :: bool
  config_json :: bool
  layouts :: "(string \<Rightarrow> layout option) option"
  backups :: "(string \<Rightarrow> layout option) option"
  console :: "log_line list"
  io_trace :: "fs_op list"

definition log_info :: "message \<Rightarrow> project \<Rightarrow> project" where
  "log_info m s = s\<lparr>console := console s @ [LogInfo m]\<rparr>"

definition log_success :: "message \<Rightarrow> project \<Rightarrow> project" where
  "log_success m s = s\<lparr>console := console s @ [LogSuccess m]\<rparr>"

definition log_error :: "message \<Rightarrow> project \<Rightarrow> project" where
  "log_error m s = s\<lparr>console := console s @ [LogError m]\<rparr>"

definition is_initialized :: "project \<Rightarrow> bool" where
  "is_initialized s \<longleftrightarrow> gridfile_dir s \<and> ai_dir s \<and> config_json s"

definition read_file :: "project \<Rightarrow> file_path \<Rightarrow> layout option" where
  "read_file s p =
     (case (case fst p of LayoutsDir \<Rightarrow> layouts s | BackupsDir \<Rightarrow> backups s) of
        None \<Rightarrow> None
      | Some files \<Rightarrow> files (snd p))"

definition file_exists :: "project \<Rightarrow> file_path \<Rightarrow> bool" where
  "file_exists s p \<longleftrightarrow> read_file s p \<noteq> None"

text \<open>Creating or replacing a file fails when its directory does not exist.\<close>

definition store_file :: "file_path \<Rightarrow> layout \<Rightarrow> project \<Rightarrow> py_error + project" where
  "store_file p doc s =
     (case fst p of
        LayoutsDir \<Rightarrow>
          (case layouts s of
             None \<Rightarrow> Inl FileNotFoundError
           | Some files \<Rightarrow> Inr (s\<lparr>layouts := Some (files(snd p \<mapsto> doc))\<rparr>))
      | BackupsDir \<Rightarrow>
          (case backups s of
             None \<Rightarrow> Inl FileNotFoundError
           | Some files \<Rightarrow> Inr (s\<lparr>backups := Some (files(snd p \<mapsto> doc))\<rparr>)))"

text \<open>\<^verbatim>\<open>with open(p, "w") as f: json.dump(doc, f, ...)\<close>\<close>

definition write_json :: "file_path \<Rightarrow> layout \<Rightarrow> project \<Rightarrow> py_error + project" where
  "write_json p doc s =
     (case store_file p doc s of
        Inl e \<Rightarrow> Inl e
      | Inr s' \<Rightarrow> Inr (s'\<lparr>io_trace := io_trace s' @ [Wrote p]\<rparr>))"

text \<open>\<^verbatim>\<open>shutil.copy2(src, dst)\<close>: the destination receives the contents of the source.\<close>

definition copy2 :: "file_path \<Rightarrow> file_path \<Rightarrow> project \<Rightarrow> py_error + project" where
  "copy2 src dst s =
     (case read_file s src of
        None \<Rightarrow> Inl FileNotFoundError
      | Some doc \<Rightarrow>
          (case store_file dst doc s of
             Inl e \<Rightarrow> Inl e
           | Inr s' \<Rightarrow> Inr (s'\<lparr>io_trace := io_trace s' @ [Copied src dst]\<rparr>)))"

definition current_layout_path :: file_path where
  "current_layout_path = (LayoutsDir, ''current.json'')"

definition initial_layout_path :: file_path where
  "initial_layout_path = (LayoutsDir, ''initial.json'')"

text \<open>\<open>now_stamp\<close> is \<^verbatim>\<open>datetime.datetime.now().strftime('%Y%m%d-%H%M%S')\<close>.\<close>

definition backup_path :: "string \<Rightarrow> file_path" where
  "backup_path now_stamp = (BackupsDir, ''layout-'' @ now_stamp @ ''.json'')"

text \<open>\<^verbatim>\<open>sum(1 for block in blocks if block.get("placed", False))\<close>\<close>

definition count_placed :: "block list \<Rightarrow> nat" where
  "count_placed bs = length (filter placed bs)"

text \<open>The dictionary \<^verbatim>\<open>new_layout\<close> with its statistics filled in.\<close>

definition new_layout ::
  "string \<Rightarrow> grid_size \<Rightarrow> (string \<times> zone) list \<Rightarrow> block list \<Rightarrow> layout" where
  "new_layout now_iso gs zs new_blocks =
     \<lparr>version = Some ''1.0.0'', timestamp = Some now_iso,
      grid_size = Some gs, zones = Some zs, blocks = Some new_blocks,
      stats = Some \<lparr>total_files = length new_blocks, placed_files = count_placed new_blocks,
                    by_category = category_counts new_blocks,
                    by_type = type_counts new_blocks\<rparr>\<rparr>"

text \<open>
  \<^verbatim>\<open>grid_reorganize\<close> from \<^verbatim>\<open>json.load\<close> on: \<open>layout_path\<close> is the file that was
  loaded and \<open>doc\<close> its contents. The three \<^verbatim>\<open>layout.get(key, default)\<close> calls come first.
\<close>

definition reorganize_loaded ::
  "string \<Rightarrow> string \<Rightarrow> file_path \<Rightarrow> layout \<Rightarrow> project \<Rightarrow> (py_error + bool) \<times> project" where
  "reorganize_loaded now_iso now_stamp layout_path doc s =
     (let gs = (case grid_size doc of None \<Rightarrow> default_grid_size | Some g \<Rightarrow> g);
          zs = (case zones doc of None \<Rightarrow> default_zones | Some z \<Rightarrow> z);
          bs = (case blocks doc of None \<Rightarrow> [] | Some b \<Rightarrow> b);
          old_placed = count_placed bs;
          s1 = log_info RearrangingBlocks s
      in case reorganize_blocks bs zs gs of
           Inl e \<Rightarrow> (Inl e, s1)
         | Inr new_blocks \<Rightarrow>
             (case (if file_exists s1 layout_path
                    then copy2 layout_path (backup_path now_stamp) s1 else Inr s1) of
                Inl e \<Rightarrow> (Inl e, s1)
              | Inr s2 \<Rightarrow>
                  (case write_json current_layout_path (new_layout now_iso gs zs new_blocks) s2 of
                     Inl e \<Rightarrow> (Inl e, s2)
                   | Inr s3 \<Rightarrow>
                       (Inr True,
                        if length bs > 0
                        then log_success
                               (EfficiencyImproved old_placed (count_placed new_blocks) (length bs)) s3
                        else log_success LayoutReorganized s3))))"

text \<open>
  \<open>now_iso\<close> and \<open>now_stamp\<close> are the two clock readings of the call, already formatted.
  The result is the returned flag, or the exception that ended the call, with the project
  as the call left it.
\<close>

definition grid_reorganize :: "string \<Rightarrow> string \<Rightarrow> project \<Rightarrow> (py_error + bool) \<times> project" where
  "grid_reorganize now_iso now_stamp s =
     (if \<not> is_initialized s then (Inr False, log_error NotInitialized s)
      else
        let s1 = log_info ReorganizingLayout s;
            layout_path = (if file_exists s1 current_layout_path
                           then current_layout_path else initial_layout_path)
        in if \<not> file_exists s1 layout_path then (Inr False, log_error LayoutFileNotFound s1)
           else
             (case read_file s1 layout_path of
                None \<Rightarrow> (Inl FileNotFoundError, s1)
              | Some doc \<Rightarrow> reorganize_loaded now_iso now_stamp layout_path doc s1))"

text \<open>
  \<^verbatim>\<open>_scan_and_organize_files\<close>: \<open>found\<close> is what the \<^verbatim>\<open>glob\<close> yields (regular files), each
  paired with the clock reading of its analysis. \<^verbatim>\<open>_log_debug\<close> prints in debug mode only
  and is left out.
\<close>

definition scan_and_organize_files ::
  "config \<Rightarrow> string \<Rightarrow> (int \<times> file_entry) list \<Rightarrow> project \<Rightarrow> (py_error + unit) \<times> project" where
  "scan_and_organize_files cfg now_iso found s =
     (let s1 = log_info ScanningFiles s;
          files = filter (\<lambda>(now, f). \<not> should_ignore_file f) found;
          s2 = log_info (FilesFound (length files)) s1;
          grid_layout = create_initial_grid_layout cfg now_iso files
      in case write_json initial_layout_path grid_layout s2 of
           Inl e \<Rightarrow> (Inl e, s2)
         | Inr s3 \<Rightarrow> (Inr (), s3))"

section \<open>Sample inputs\<close>

definition two_digits :: "nat \<Rightarrow> string" where
  "two_digits n = [char_of (48 + n div 10), char_of (48 + n mod 10)]"

text \<open>A source file \<open>src/fNN.py\<close> of 100 bytes, modified (and analysed) at time 0.\<close>

definition recent_file :: "nat \<Rightarrow> int \<times> file_entry" where
  "recent_file i =
     (0, \<lparr>rel_path = ''src/f'' @ two_digits i @ ''.py'',
          str_path = ''/home/u/proj/src/f'' @ two_digits i @ ''.py'',
          file_name = ''f'' @ two_digits i @ ''.py'', path_suffix = ''.py'',
          st_mtime = 0, st_size = 100\<rparr>)"

text \<open>The block that a fresh build makes of it: category \<open>active\<close>, not placed.\<close>

definition active_block :: "nat \<Rightarrow> block" where
  "active_block i =
     \<lparr>path = ''src/f'' @ two_digits i @ ''.py'', name = ''f'' @ two_digits i @ ''.py'',
      ftype = ''code'', category = ''active'', fsize = 100, modified = 0,
      placed = False, position = None\<rparr>"

text \<open>An initialised project whose layouts directory holds the given files.\<close>

definition project_with :: "(string \<Rightarrow> layout option) \<Rightarrow> project" where
  "project_with files =
     \<lparr>gridfile_dir = True, ai_dir = True, config_json = True,
      layouts = Some files, backups = Some Map.empty, console = [], io_trace = []\<rparr>"

text \<open>A JSON object without any of the six keys.\<close>

definition empty_document :: layout where
  "empty_document =
     \<lparr>version = None, timestamp = None, grid_size = None, zones = None,
      blocks = None, stats = None\<rparr>"

text \<open>
  An initialised project right after a fresh build over \<open>n\<close> recent source files with
  the default configuration: only \<^verbatim>\<open>initial.json\<close> exists.
\<close>

definition fresh_project :: "nat \<Rightarrow> project" where
  "fresh_project n =
     project_with [''initial.json'' \<mapsto>
       create_initial_grid_layout default_config ''2026-01-01T09:00:00'' (map recent_file [0..<n])]"

text \<open>A block of category \<open>archive\<close> as an earlier layout may hold it, placed at (0, 4).\<close>

definition archive_block :: block where
  "archive_block =
     \<lparr>path = ''old/notes.txt'', name = ''notes.txt'', ftype = ''document'',
      category = ''archive'', fsize = 7, modified = 0, placed = True, position = Some (0, 4)\<rparr>"


section \<open>Invariant of the grouping dictionary\<close>

text \<open>Every list of \<^verbatim>\<open>categorized_blocks\<close> holds blocks of its own key only.\<close>

definition grouped_by_category :: "(string \<times> block list) list \<Rightarrow> bool" where
  "grouped_by_category g \<longleftrightarrow> list_all (\<lambda>(k, l). list_all (\<lambda>b. category b = k) l) g"

section \<open>Properties of the classifier\<close>

lemma floor_div_less_iff:
  assumes d: "0 < (d::int)"
  shows "a div d < k \<longleftrightarrow> a < k * d"
proof -
  define q where "q = a div d"
  define r where "r = a mod d"
  have a: "a = q * d + r" by (simp add: q_def r_def)
  have r: "0 \<le> r" "r < d" using d by (simp_all add: r_def)
  show ?thesis
  proof
    assume "a div d < k"
    then have "q + 1 \<le> k" by (simp add: q_def)
    then have "(q + 1) * d \<le> k * d" using d by (simp add: mult_right_mono)
    then have "q * d + d \<le> k * d" by (simp add: algebra_simps)
    then show "a < k * d" using a r by linarith
  next
    assume lt: "a < k * d"
    show "a div d < k"
    proof (rule ccontr)
      assume "\<not> a div d < k"
      then have "k \<le> q" by (simp add: q_def)
      then have "k * d \<le> q * d" using d by (simp add: mult_right_mono)
      then show False using lt a r by linarith
    qed
  qed
qed

lemma days_less_iff: "days_since_modified now m < k \<longleftrightarrow> now - m < k * day"
  unfolding days_since_modified_def
  by (rule floor_div_less_iff) (simp add: day_def)

text \<open>
  Claim C4. The category is \<open>active\<close> when less than 7 days have elapsed since the
  modification time, \<open>pending\<close> when less than 30 days have, and \<open>archive\<close> otherwise, except
  that a name starting with \<open>README\<close>, one of the three manifest names, or a name starting
  with \<open>test_\<close> or ending in \<open>_test.py\<close> always gives \<open>resources\<close>; a file named
  \<open>README.md\<close> modified 200 days before the call is classified \<open>resources\<close>.
\<close>

theorem analyze_file_category:
  "info_category (analyze_file now f) =
     (if prefix ''README'' (file_name f)
         \<or> file_name f = ''requirements.txt'' \<or> file_name f = ''package.json''
         \<or> file_name f = ''setup.py''
         \<or> prefix ''test_'' (file_name f) \<or> suffix ''_test.py'' (file_name f)
      then ''resources''
      else if now - st_mtime f < 7 * day then ''active''
      else if now - st_mtime f < 30 * day then ''pending''
      else ''archive'')
   \<and> info_category
        (analyze_file (m + 200 * day)
           \<lparr>rel_path = rp, str_path = sp, file_name = ''README.md'', path_suffix = ''.md'',
            st_mtime = m, st_size = sz\<rparr>) = ''resources''"
proof -
  have d7: "days_since_modified now (st_mtime f) < 7 \<longleftrightarrow> now - st_mtime f < 7 * day"
    by (rule days_less_iff)
  have d30: "days_since_modified now (st_mtime f) < 30 \<longleftrightarrow> now - st_mtime f < 30 * day"
    by (rule days_less_iff)
  have general: "info_category (analyze_file now f) =
     (if prefix ''README'' (file_name f)
         \<or> file_name f = ''requirements.txt'' \<or> file_name f = ''package.json''
         \<or> file_name f = ''setup.py''
         \<or> prefix ''test_'' (file_name f) \<or> suffix ''_test.py'' (file_name f)
      then ''resources''
      else if now - st_mtime f < 7 * day then ''active''
      else if now - st_mtime f < 30 * day then ''pending''
      else ''archive'')"
    unfolding analyze_file_def special_category_def category_by_age_def
    using d7 d30 by simp
  have readme: "special_category ''README.md'' c = ''resources''" for c
    unfolding special_category_def by simp
  show ?thesis
    using general by (simp add: analyze_file_def readme)
qed

section \<open>Properties of the fresh build\<close>

text \<open>
  Claim C3, counterexample. A fresh build over one source file modified just before the
  scan yields a block of category \<open>active\<close> that is not placed and has no position,
  although the zone of that category is in the configuration and all of its cells are free.
\<close>

theorem fresh_build_recent_file_unplaced:
  "blocks (create_initial_grid_layout default_config ''2026-01-01T09:00:00'' [recent_file 0]) =
     Some [\<lparr>path = ''src/f00.py'', name = ''f00.py'', ftype = ''code'', category = ''active'',
            fsize = 100, modified = 0, placed = False, position = None\<rparr>]
 \<and> map_of default_zones (zone_name_of ''active'') =
     Some \<lparr>zone_x = 0, zone_y = 0, zone_w = 6, zone_h = 4\<rparr>"
  by code_simp

text \<open>
  Claim C3, as amended. A fresh build turns every scanned file into one block, in scan
  order and without grouping by category, that carries the relative path, name, size and
  modification time of the file and the kind and the category that the classifier gives
  it. Whatever grid and zones the configuration holds, every block has
  \<open>placed = False\<close> and no position, \<open>total_files\<close> is the number of files and
  \<open>placed_files\<close> is 0.
\<close>

theorem fresh_build_places_nothing:
  "blocks (create_initial_grid_layout cfg now_iso files) =
     Some (map (\<lambda>(now, f).
             \<lparr>path = rel_path f, name = file_name f,
              ftype = info_type (analyze_file now f),
              category = info_category (analyze_file now f),
              fsize = st_size f, modified = st_mtime f,
              placed = False, position = None\<rparr>) files)
 \<and> map_option total_files (stats (create_initial_grid_layout cfg now_iso files)) =
     Some (length files)
 \<and> map_option placed_files (stats (create_initial_grid_layout cfg now_iso files)) = Some 0"
proof -
  have "file_block now f =
          \<lparr>path = rel_path f, name = file_name f,
           ftype = info_type (analyze_file now f),
           category = info_category (analyze_file now f),
           fsize = st_size f, modified = st_mtime f,
           placed = False, position = None\<rparr>" for now f
    by (simp add: file_block_def Let_def analyze_file_def)
  then have "(\<lambda>(now, f). file_block now f) =
     (\<lambda>(now, f). \<lparr>path = rel_path f, name = file_name f,
              ftype = info_type (analyze_file now f),
              category = info_category (analyze_file now f),
              fsize = st_size f, modified = st_mtime f,
              placed = False, position = None\<rparr>)"
    by (simp add: fun_eq_iff)
  then show ?thesis
    by (simp add: create_initial_grid_layout_def Let_def)
qed

section \<open>Properties of the layout store\<close>

lemma read_file_update [simp]:
  "read_file (s\<lparr>console := c\<rparr>) p = read_file s p"
  "read_file (s\<lparr>io_trace := t\<rparr>) p = read_file s p"
  by (simp_all add: read_file_def split: directory.splits)

lemma read_file_log [simp]:
  "read_file (log_info m s) p = read_file s p"
  "read_file (log_success m s) p = read_file s p"
  "read_file (log_error m s) p = read_file s p"
  by (simp_all add: log_info_def log_success_def log_error_def)

lemma file_exists_log [simp]:
  "file_exists (log_info m s) p = file_exists s p"
  by (simp add: file_exists_def)

lemma log_fields [simp]:
  "layouts (log_info m s) = layouts s" "backups (log_info m s) = backups s"
  "io_trace (log_info m s) = io_trace s"
  "layouts (log_success m s) = layouts s" "backups (log_success m s) = backups s"
  "io_trace (log_success m s) = io_trace s"
  "layouts (log_error m s) = layouts s" "backups (log_error m s) = backups s"
  "io_trace (log_error m s) = io_trace s"
  by (simp_all add: log_info_def log_success_def log_error_def)

lemma store_file_read:
  "store_file p doc s = Inr s' \<Longrightarrow> read_file s' q = (if q = p then Some doc else read_file s q)"
  by (cases p; cases q) (auto simp: store_file_def read_file_def split: directory.splits option.splits)

lemma store_file_trace: "store_file p doc s = Inr s' \<Longrightarrow> io_trace s' = io_trace s"
  by (cases p) (auto simp: store_file_def split: directory.splits option.splits)

lemma write_json_read:
  "write_json p doc s = Inr s' \<Longrightarrow> read_file s' q = (if q = p then Some doc else read_file s q)"
  by (auto simp: write_json_def split: sum.splits dest!: store_file_read[where q=q])

lemma write_json_trace: "write_json p doc s = Inr s' \<Longrightarrow> io_trace s' = io_trace s @ [Wrote p]"
  by (auto simp: write_json_def split: sum.splits dest: store_file_trace)

lemma copy2_read:
  "copy2 src dst s = Inr s' \<Longrightarrow> read_file s' q = (if q = dst then read_file s src else read_file s q)"
  by (auto simp: copy2_def split: sum.splits option.splits dest!: store_file_read[where q=q])

lemma copy2_trace: "copy2 src dst s = Inr s' \<Longrightarrow> io_trace s' = io_trace s @ [Copied src dst]"
  by (auto simp: copy2_def split: sum.splits option.splits dest: store_file_trace)

lemma write_json_layouts_ok:
  "layouts s \<noteq> None \<Longrightarrow> \<exists>s'. write_json (LayoutsDir, n) doc s = Inr s'"
  by (auto simp: write_json_def store_file_def)

lemma copy2_backups_layouts:
  "copy2 src (BackupsDir, n) s = Inr s' \<Longrightarrow> layouts s' = layouts s"
  by (auto simp: copy2_def store_file_def split: option.splits)

lemma copy2_fails: "backups s = None \<Longrightarrow> copy2 src (BackupsDir, n) s = Inl FileNotFoundError"
  by (auto simp: copy2_def store_file_def split: option.splits)

lemma file_exists_layouts: "file_exists s (LayoutsDir, n) \<Longrightarrow> layouts s \<noteq> None"
  by (auto simp: file_exists_def read_file_def split: option.splits)





lemma reorganize_loaded_success:
  assumes ex: "file_exists s p" and p: "fst p = LayoutsDir"
    and nb: "reorganize_blocks (case blocks doc of None \<Rightarrow> [] | Some x \<Rightarrow> x)
               (case zones doc of None \<Rightarrow> default_zones | Some z \<Rightarrow> z)
               (case grid_size doc of None \<Rightarrow> default_grid_size | Some g \<Rightarrow> g) = Inr nb"
    and cp: "copy2 p (backup_path b) (log_info RearrangingBlocks s) = Inr s2"
  shows "\<exists>s3 m.
           write_json current_layout_path
             (new_layout a (case grid_size doc of None \<Rightarrow> default_grid_size | Some g \<Rightarrow> g)
                (case zones doc of None \<Rightarrow> default_zones | Some z \<Rightarrow> z) nb) s2 = Inr s3
         \<and> reorganize_loaded a b p doc s = (Inr True, log_success m s3)"
proof -
  let ?s1 = "log_info RearrangingBlocks s"
  let ?zs = "case zones doc of None \<Rightarrow> default_zones | Some z \<Rightarrow> z"
  let ?gs = "case grid_size doc of None \<Rightarrow> default_grid_size | Some g \<Rightarrow> g"
  have "layouts s2 \<noteq> None"
    using copy2_backups_layouts[of p _ ?s1 s2] cp file_exists_layouts[of s "snd p"] ex p
    by (cases p) (simp add: backup_path_def)
  then obtain s3 where s3: "write_json current_layout_path (new_layout a ?gs ?zs nb) s2 = Inr s3"
    using write_json_layouts_ok[of s2] by (auto simp: current_layout_path_def)
  show ?thesis using nb cp s3 ex
    by (auto simp: reorganize_loaded_def Let_def)
qed

lemma reorganize_loaded_cases:
  assumes ex: "file_exists s p" and p: "fst p = LayoutsDir"
  shows "(\<exists>e. reorganize_loaded a b p doc s = (Inl e, log_info RearrangingBlocks s))
       \<or> (\<exists>nb s2 s3 m. 
            reorganize_blocks (case blocks doc of None \<Rightarrow> [] | Some x \<Rightarrow> x)
               (case zones doc of None \<Rightarrow> default_zones | Some z \<Rightarrow> z)
               (case grid_size doc of None \<Rightarrow> default_grid_size | Some g \<Rightarrow> g) = Inr nb
          \<and> copy2 p (backup_path b) (log_info RearrangingBlocks s) = Inr s2
          \<and> write_json current_layout_path
                (new_layout a (case grid_size doc of None \<Rightarrow> default_grid_size | Some g \<Rightarrow> g)
                   (case zones doc of None \<Rightarrow> default_zones | Some z \<Rightarrow> z) nb) s2 = Inr s3
          \<and> reorganize_loaded a b p doc s = (Inr True, log_success m s3))"
proof -
  let ?s1 = "log_info RearrangingBlocks s"
  let ?bs = "case blocks doc of None \<Rightarrow> [] | Some x \<Rightarrow> x"
  let ?zs = "case zones doc of None \<Rightarrow> default_zones | Some z \<Rightarrow> z"
  let ?gs = "case grid_size doc of None \<Rightarrow> default_grid_size | Some g \<Rightarrow> g"
  show ?thesis
  proof (cases "reorganize_blocks ?bs ?zs ?gs")
    case (Inl e)
    then show ?thesis by (simp add: reorganize_loaded_def Let_def)
  next
    case (Inr nb)
    note nb = this
    show ?thesis
    proof (cases "copy2 p (backup_path b) ?s1")
      case (Inl e)
      then show ?thesis using nb ex by (simp add: reorganize_loaded_def Let_def)
    next
      case (Inr s2)
      from reorganize_loaded_success[OF ex p nb Inr, of a]
      show ?thesis using nb Inr by blast
    qed
  qed
qed

lemma grid_reorganize_found:
  assumes init: "is_initialized s"
    and p: "p = (if file_exists s current_layout_path then current_layout_path else initial_layout_path)"
    and doc: "read_file s p = Some doc"
  shows "grid_reorganize a b s = reorganize_loaded a b p doc (log_info ReorganizingLayout s)"
  using init doc unfolding p
  by (simp add: grid_reorganize_def Let_def file_exists_def)

lemma grid_reorganize_not_found:
  assumes init: "is_initialized s"
    and "read_file s current_layout_path = None" "read_file s initial_layout_path = None"
  shows "grid_reorganize a b s =
           (Inr False, log_error LayoutFileNotFound (log_info ReorganizingLayout s))"
  using assms by (simp add: grid_reorganize_def Let_def file_exists_def)


text \<open>
  Writing the initial layout: with the layouts directory in place,
  \<^verbatim>\<open>_scan_and_organize_files\<close> stores the fresh build of the files that are not ignored.
\<close>

lemma scan_writes_initial_layout:
  assumes "layouts s \<noteq> None"
  shows "\<exists>s'. scan_and_organize_files cfg now_iso found s = (Inr (), s')
            \<and> read_file s' initial_layout_path =
                Some (create_initial_grid_layout cfg now_iso
                        (filter (\<lambda>(now, f). \<not> should_ignore_file f) found))"
proof -
  let ?s2 = "log_info (FilesFound (length (filter (\<lambda>(now, f). \<not> should_ignore_file f) found)))
               (log_info ScanningFiles s)"
  let ?l = "create_initial_grid_layout cfg now_iso (filter (\<lambda>(now, f). \<not> should_ignore_file f) found)"
  have "layouts ?s2 \<noteq> None" using assms by simp
  then obtain s3 where w: "write_json initial_layout_path ?l ?s2 = Inr s3"
    using write_json_layouts_ok[of ?s2] by (auto simp: initial_layout_path_def)
  have "read_file s3 initial_layout_path = Some ?l"
    using write_json_read[OF w, of initial_layout_path] by simp
  then show ?thesis using w by (simp add: scan_and_organize_files_def Let_def)
qed

text \<open>
  Claim C7. With the project initialised, \<^verbatim>\<open>grid_reorganize\<close> works on the contents of
  \<^verbatim>\<open>current.json\<close> when that file exists and on those of \<^verbatim>\<open>initial.json\<close> when only
  that one exists. When neither exists it returns \<open>False\<close> after printing the error that
  the layout file cannot be found, and leaves the layouts directory, the backups directory
  and the list of file operations as they were: nothing is written, nothing is backed up.
\<close>

theorem reorganize_layout_lookup:
  assumes init: "is_initialized s"
  shows "(read_file s current_layout_path = Some doc \<longrightarrow>
            grid_reorganize a b s =
              reorganize_loaded a b current_layout_path doc (log_info ReorganizingLayout s))
       \<and> (read_file s current_layout_path = None \<and> read_file s initial_layout_path = Some doc \<longrightarrow>
            grid_reorganize a b s =
              reorganize_loaded a b initial_layout_path doc (log_info ReorganizingLayout s))
       \<and> (read_file s current_layout_path = None \<and> read_file s initial_layout_path = None \<longrightarrow>
            fst (grid_reorganize a b s) = Inr False
          \<and> console (snd (grid_reorganize a b s)) =
              console s @ [LogInfo ReorganizingLayout, LogError LayoutFileNotFound]
          \<and> layouts (snd (grid_reorganize a b s)) = layouts s
          \<and> backups (snd (grid_reorganize a b s)) = backups s
          \<and> io_trace (snd (grid_reorganize a b s)) = io_trace s)"
proof (intro conjI impI)
  assume "read_file s current_layout_path = Some doc"
  then show "grid_reorganize a b s =
      reorganize_loaded a b current_layout_path doc (log_info ReorganizingLayout s)"
    using grid_reorganize_found[OF init, of current_layout_path doc a b]
    by (simp add: file_exists_def)
next
  assume "read_file s current_layout_path = None \<and> read_file s initial_layout_path = Some doc"
  then show "grid_reorganize a b s =
      reorganize_loaded a b initial_layout_path doc (log_info ReorganizingLayout s)"
    using grid_reorganize_found[OF init, of initial_layout_path doc a b]
    by (simp add: file_exists_def)
next
  assume none: "read_file s current_layout_path = None \<and> read_file s initial_layout_path = None"
  then have eq: "grid_reorganize a b s =
           (Inr False, log_error LayoutFileNotFound (log_info ReorganizingLayout s))"
    using grid_reorganize_not_found[OF init] by simp
  show "fst (grid_reorganize a b s) = Inr False" by (simp add: eq)
  show "console (snd (grid_reorganize a b s)) =
      console s @ [LogInfo ReorganizingLayout, LogError LayoutFileNotFound]"
    by (simp add: eq log_error_def log_info_def)
  show "layouts (snd (grid_reorganize a b s)) = layouts s" by (simp add: eq)
  show "backups (snd (grid_reorganize a b s)) = backups s" by (simp add: eq)
  show "io_trace (snd (grid_reorganize a b s)) = io_trace s" by (simp add: eq)
qed

text \<open>
  Claim C7, witness: a project without layout files, one with both files and one with
  \<^verbatim>\<open>initial.json\<close> only.
\<close>

theorem reorganize_layout_lookup_witness:
  "is_initialized (project_with Map.empty)
 \<and> read_file (project_with Map.empty) current_layout_path = None
 \<and> read_file (project_with Map.empty) initial_layout_path = None
 \<and> fst (grid_reorganize ''2026-01-02T09:00:00'' ''20260102-090000'' (project_with Map.empty)) = Inr False
 \<and> console (snd (grid_reorganize ''2026-01-02T09:00:00'' ''20260102-090000'' (project_with Map.empty))) =
     [LogInfo ReorganizingLayout, LogError LayoutFileNotFound]
 \<and> io_trace (snd (grid_reorganize ''2026-01-02T09:00:00'' ''20260102-090000'' (project_with Map.empty))) = []
 \<and> grid_reorganize ''2026-01-02T09:00:00'' ''20260102-090000''
       (project_with [''current.json'' \<mapsto> empty_document, ''initial.json'' \<mapsto> new_layout ''t'' default_grid_size default_zones []]) =
     reorganize_loaded ''2026-01-02T09:00:00'' ''20260102-090000'' current_layout_path empty_document
       (log_info ReorganizingLayout
         (project_with [''current.json'' \<mapsto> empty_document, ''initial.json'' \<mapsto> new_layout ''t'' default_grid_size default_zones []]))
 \<and> grid_reorganize ''2026-01-02T09:00:00'' ''20260102-090000''
       (project_with [''initial.json'' \<mapsto> empty_document]) =
     reorganize_loaded ''2026-01-02T09:00:00'' ''20260102-090000'' initial_layout_path empty_document
       (log_info ReorganizingLayout (project_with [''initial.json'' \<mapsto> empty_document]))"
proof -
  have init: "is_initialized (project_with files)" for files
    by (simp add: is_initialized_def project_with_def)
  have none: "read_file (project_with Map.empty) current_layout_path = None"
    "read_file (project_with Map.empty) initial_layout_path = None"
    by (simp_all add: read_file_def project_with_def current_layout_path_def initial_layout_path_def)
  have both: "read_file (project_with [''current.json'' \<mapsto> empty_document, ''initial.json'' \<mapsto> new_layout ''t'' default_grid_size default_zones []])
                current_layout_path = Some empty_document"
    by (simp add: read_file_def project_with_def current_layout_path_def)
  have only: "read_file (project_with [''initial.json'' \<mapsto> empty_document]) current_layout_path = None
            \<and> read_file (project_with [''initial.json'' \<mapsto> empty_document]) initial_layout_path = Some empty_document"
    by (simp add: read_file_def project_with_def current_layout_path_def initial_layout_path_def)
  note absent = reorganize_layout_lookup[OF init, THEN conjunct2, THEN conjunct2, THEN mp, OF conjI[OF none],
      of "''2026-01-02T09:00:00''" "''20260102-090000''"]
  note cur = reorganize_layout_lookup[OF init, THEN conjunct1, THEN mp, OF both,
      of "''2026-01-02T09:00:00''" "''20260102-090000''"]
  note ini = reorganize_layout_lookup[OF init, THEN conjunct2, THEN conjunct1, THEN mp, OF only,
      of "''2026-01-02T09:00:00''" "''20260102-090000''"]
  show ?thesis using init none absent cur ini
    by (simp add: project_with_def)
qed

lemma grid_reorganize_outcomes:
  "(fst (grid_reorganize a b s) \<noteq> Inr True
      \<and> io_trace (snd (grid_reorganize a b s)) = io_trace s
      \<and> layouts (snd (grid_reorganize a b s)) = layouts s)
   \<or> (\<exists>p doc nb gs zs s2 s3 m. 
         p = (if file_exists s current_layout_path then current_layout_path else initial_layout_path)
       \<and> read_file s p = Some doc
       \<and> copy2 p (backup_path b) (log_info RearrangingBlocks (log_info ReorganizingLayout s)) = Inr s2
       \<and> write_json current_layout_path (new_layout a gs zs nb) s2 = Inr s3
       \<and> grid_reorganize a b s = (Inr True, log_success m s3))"
proof (cases "is_initialized s")
  case False
  then show ?thesis by (simp add: grid_reorganize_def)
next
  case init: True
  define p where "p = (if file_exists s current_layout_path then current_layout_path else initial_layout_path)"
  show ?thesis
  proof (cases "read_file s p")
    case None
    then have "grid_reorganize a b s =
           (Inr False, log_error LayoutFileNotFound (log_info ReorganizingLayout s))"
      using init unfolding p_def
      by (simp add: grid_reorganize_def Let_def file_exists_def split: if_splits)
    then show ?thesis by simp
  next
    case (Some doc)
    let ?s1 = "log_info ReorganizingLayout s"
    have eq: "grid_reorganize a b s = reorganize_loaded a b p doc ?s1"
      using grid_reorganize_found[OF init p_def Some] .
    have ex: "file_exists ?s1 p" using Some by (simp add: file_exists_def)
    have dir: "fst p = LayoutsDir"
      by (simp add: p_def current_layout_path_def initial_layout_path_def)
    from reorganize_loaded_cases[OF ex dir, of a b doc]
    show ?thesis
    proof (elim disjE exE conjE)
      fix e assume "reorganize_loaded a b p doc ?s1 = (Inl e, log_info RearrangingBlocks ?s1)"
      then show ?thesis using eq by simp
    next
      fix nb s2 s3 m
      assume "copy2 p (backup_path b) (log_info RearrangingBlocks ?s1) = Inr s2"
        and "write_json current_layout_path
          (new_layout a (case grid_size doc of None \<Rightarrow> default_grid_size | Some g \<Rightarrow> g)
            (case zones doc of None \<Rightarrow> default_zones | Some z \<Rightarrow> z) nb) s2 = Inr s3"
        and "reorganize_loaded a b p doc ?s1 = (Inr True, log_success m s3)"
      then have "p = (if file_exists s current_layout_path then current_layout_path
                      else initial_layout_path)
          \<and> read_file s p = Some doc
          \<and> copy2 p (backup_path b) (log_info RearrangingBlocks ?s1) = Inr s2
          \<and> write_json current_layout_path
               (new_layout a (case grid_size doc of None \<Rightarrow> default_grid_size | Some g \<Rightarrow> g)
                  (case zones doc of None \<Rightarrow> default_zones | Some z \<Rightarrow> z) nb) s2 = Inr s3
          \<and> grid_reorganize a b s = (Inr True, log_success m s3)"
        using eq Some p_def by simp
      then show ?thesis by blast
    qed
  qed
qed

text \<open>
  Claim C8. A call that returns \<open>True\<close> has performed exactly two file operations, in
  this order: the copy of the loaded layout file (\<^verbatim>\<open>current.json\<close> when it exists) to the
  backup named by the time stamp, then the write of \<^verbatim>\<open>current.json\<close>; the backup holds the
  prior contents unchanged. A call that does not return \<open>True\<close> has performed no file
  operation and the layouts directory is as before. When the backup cannot be made (there
  is no backups directory) the call does not return \<open>True\<close>.
\<close>

theorem backup_precedes_overwrite:
  "(fst (grid_reorganize a b s) = Inr True \<longrightarrow>
      (\<exists>doc. read_file s (if file_exists s current_layout_path then current_layout_path
                           else initial_layout_path) = Some doc
           \<and> io_trace (snd (grid_reorganize a b s)) =
               io_trace s @ [Copied (if file_exists s current_layout_path then current_layout_path
                                     else initial_layout_path) (backup_path b),
                             Wrote current_layout_path]
           \<and> read_file (snd (grid_reorganize a b s)) (backup_path b) = Some doc))
 \<and> (fst (grid_reorganize a b s) \<noteq> Inr True \<longrightarrow>
      io_trace (snd (grid_reorganize a b s)) = io_trace s
    \<and> layouts (snd (grid_reorganize a b s)) = layouts s)
 \<and> (backups s = None \<longrightarrow> fst (grid_reorganize a b s) \<noteq> Inr True)"
proof -
  let ?p = "if file_exists s current_layout_path then current_layout_path else initial_layout_path"
  let ?s0 = "log_info RearrangingBlocks (log_info ReorganizingLayout s)"
  from grid_reorganize_outcomes[of a b s]
  show ?thesis
  proof (elim disjE exE conjE)
    assume "fst (grid_reorganize a b s) \<noteq> Inr True"
      "io_trace (snd (grid_reorganize a b s)) = io_trace s"
      "layouts (snd (grid_reorganize a b s)) = layouts s"
    then show ?thesis by simp
  next
    fix p doc nb gs zs s2 s3 m
    assume p: "p = ?p" and doc: "read_file s p = Some doc"
      and cp: "copy2 p (backup_path b) ?s0 = Inr s2"
      and wr: "write_json current_layout_path (new_layout a gs zs nb) s2 = Inr s3"
      and eq: "grid_reorganize a b s = (Inr True, log_success m s3)"
    have t: "io_trace s3 = io_trace s @ [Copied p (backup_path b), Wrote current_layout_path]"
      using copy2_trace[OF cp] write_json_trace[OF wr] by simp
    have "read_file s2 (backup_path b) = Some doc"
      using copy2_read[OF cp, of "backup_path b"] doc by simp
    then have r: "read_file s3 (backup_path b) = Some doc"
      using write_json_read[OF wr, of "backup_path b"]
      by (simp add: backup_path_def current_layout_path_def)
    have nb: "backups s \<noteq> None"
      using cp copy2_fails[of ?s0 p "snd (backup_path b)"] by (auto simp: backup_path_def)
    show ?thesis using t r doc nb unfolding eq p by simp
  qed
qed

text \<open>
  Claim C8, witness: the reorganization of a fresh project, with and without its backups
  directory.
\<close>

theorem backup_precedes_overwrite_witness:
  "fst (grid_reorganize ''2026-01-02T09:00:00'' ''20260102-090000'' (fresh_project 2)) = Inr True
 \<and> io_trace (snd (grid_reorganize ''2026-01-02T09:00:00'' ''20260102-090000'' (fresh_project 2))) =
     [Copied initial_layout_path (backup_path ''20260102-090000''), Wrote current_layout_path]
 \<and> read_file (snd (grid_reorganize ''2026-01-02T09:00:00'' ''20260102-090000'' (fresh_project 2)))
       (backup_path ''20260102-090000'') = read_file (fresh_project 2) initial_layout_path
 \<and> backups ((fresh_project 2)\<lparr>backups := None\<rparr>) = None
 \<and> fst (grid_reorganize ''2026-01-02T09:00:00'' ''20260102-090000''
          ((fresh_project 2)\<lparr>backups := None\<rparr>)) \<noteq> Inr True
 \<and> layouts (snd (grid_reorganize ''2026-01-02T09:00:00'' ''20260102-090000''
          ((fresh_project 2)\<lparr>backups := None\<rparr>))) = layouts (fresh_project 2)
 \<and> io_trace (snd (grid_reorganize ''2026-01-02T09:00:00'' ''20260102-090000''
          ((fresh_project 2)\<lparr>backups := None\<rparr>))) = []"
proof -
  let ?P = "fresh_project 2"
  let ?Q = "(fresh_project 2)\<lparr>backups := None\<rparr>"
  have ok: "fst (grid_reorganize ''2026-01-02T09:00:00'' ''20260102-090000'' ?P) = Inr True"
    by code_simp
  have nocur: "\<not> file_exists ?P current_layout_path"
    by (simp add: file_exists_def read_file_def fresh_project_def project_with_def current_layout_path_def)
  have tr: "io_trace ?P = []" by (simp add: fresh_project_def project_with_def)
  have nb: "backups ?Q = None" by simp
  from backup_precedes_overwrite[of "''2026-01-02T09:00:00''" "''20260102-090000''" ?P, THEN conjunct1, THEN mp, OF ok]
  have first: "io_trace (snd (grid_reorganize ''2026-01-02T09:00:00'' ''20260102-090000'' ?P)) =
     [Copied initial_layout_path (backup_path ''20260102-090000''), Wrote current_layout_path]
   \<and> read_file (snd (grid_reorganize ''2026-01-02T09:00:00'' ''20260102-090000'' ?P))
       (backup_path ''20260102-090000'') = read_file ?P initial_layout_path"
    using nocur tr by auto
  note inst = backup_precedes_overwrite[of "''2026-01-02T09:00:00''" "''20260102-090000''" ?Q]
  from inst nb have fails: "fst (grid_reorganize ''2026-01-02T09:00:00'' ''20260102-090000'' ?Q) \<noteq> Inr True"
    by blast
  with inst have second: "io_trace (snd (grid_reorganize ''2026-01-02T09:00:00'' ''20260102-090000'' ?Q)) = io_trace ?Q
      \<and> layouts (snd (grid_reorganize ''2026-01-02T09:00:00'' ''20260102-090000'' ?Q)) = layouts ?Q"
    by blast
  show ?thesis using ok first nb fails second tr by simp
qed

text \<open>
  Claim C5. The layout of a fresh build and the layout that a successful reorganization
  writes to \<^verbatim>\<open>current.json\<close> both have \<open>total_files\<close> equal to the length of the blocks
  list and \<open>placed_files\<close> equal to the number of blocks in that list with
  \<open>placed = True\<close>.
\<close>

theorem stats_count_blocks:
  "(\<exists>bs st. blocks (create_initial_grid_layout cfg now_iso files) = Some bs
          \<and> stats (create_initial_grid_layout cfg now_iso files) = Some st
          \<and> total_files st = length bs \<and> placed_files st = length (filter placed bs))
 \<and> (fst (grid_reorganize a b s) = Inr True \<longrightarrow>
      (\<exists>l bs st. read_file (snd (grid_reorganize a b s)) current_layout_path = Some l
          \<and> blocks l = Some bs \<and> stats l = Some st
          \<and> total_files st = length bs \<and> placed_files st = length (filter placed bs)))"
proof (intro conjI impI)
  have "filter placed (map (\<lambda>(now, f). file_block now f) files) = []"
    by (induction files) (auto simp: file_block_def Let_def)
  then show "\<exists>bs st. blocks (create_initial_grid_layout cfg now_iso files) = Some bs
          \<and> stats (create_initial_grid_layout cfg now_iso files) = Some st
          \<and> total_files st = length bs \<and> placed_files st = length (filter placed bs)"
    by (simp add: create_initial_grid_layout_def Let_def)
next
  assume ok: "fst (grid_reorganize a b s) = Inr True"
  from grid_reorganize_outcomes[of a b s] ok
  obtain nb gs zs s2 s3 m where
    wr: "write_json current_layout_path (new_layout a gs zs nb) s2 = Inr s3"
    and eq: "grid_reorganize a b s = (Inr True, log_success m s3)"
    by blast
  have "read_file (snd (grid_reorganize a b s)) current_layout_path = Some (new_layout a gs zs nb)"
    using write_json_read[OF wr, of current_layout_path] by (simp add: eq)
  moreover have "blocks (new_layout a gs zs nb) = Some nb"
    and "stats (new_layout a gs zs nb) =
           Some \<lparr>total_files = length nb, placed_files = count_placed nb,
                 by_category = category_counts nb, by_type = type_counts nb\<rparr>"
    by (simp_all add: new_layout_def)
  ultimately show "\<exists>l bs st. read_file (snd (grid_reorganize a b s)) current_layout_path = Some l
          \<and> blocks l = Some bs \<and> stats l = Some st
          \<and> total_files st = length bs \<and> placed_files st = length (filter placed bs)"
    by (simp add: count_placed_def)
qed

text \<open>
  Claim C5, witness: the reorganization of a fresh project with two files succeeds.
\<close>

theorem stats_count_blocks_witness:
  "fst (grid_reorganize ''2026-01-02T09:00:00'' ''20260102-090000'' (fresh_project 2)) = Inr True
 \<and> (\<exists>l bs st.
       read_file (snd (grid_reorganize ''2026-01-02T09:00:00'' ''20260102-090000'' (fresh_project 2)))
         current_layout_path = Some l
     \<and> blocks l = Some bs \<and> stats l = Some st
     \<and> total_files st = length bs \<and> placed_files st = length (filter placed bs))"
proof -
  have ok: "fst (grid_reorganize ''2026-01-02T09:00:00'' ''20260102-090000'' (fresh_project 2)) = Inr True"
    by code_simp
  from stats_count_blocks[THEN conjunct2, THEN mp, OF ok] ok show ?thesis by simp
qed




section \<open>Properties of the reorganization\<close>

text \<open>
  Claim C1, evaluated on a layout with a single block of category \<open>active\<close>, default
  zones and the default grid: the zone placer pops the block and gives it
  \<open>placed = True\<close> and position (0, 0), and the list that \<^verbatim>\<open>_reorganize_blocks\<close> returns is
  empty, so the block of the prior layout is in no list of the new layout.
\<close>

theorem reorganize_drops_placed_block:
  "reorganize_blocks [active_block 0] default_zones default_grid_size = Inr []
 \<and> map_sum id (\<lambda>(popped, remaining, grid). (popped, remaining))
      (place_blocks_in_zone [active_block 0]
         \<lparr>zone_x = 0, zone_y = 0, zone_w = 6, zone_h = 4\<rparr> (empty_grid default_grid_size)) =
    Inr ([(active_block 0)\<lparr>placed := True, position := Some (0, 0)\<rparr>], [])"
  by code_simp

text \<open>
  Claim C2, evaluated on the scenario: grid 12 by 8, zone \<open>active\<close> at (0, 0) of width 6
  and height 4, 30 blocks of category \<open>active\<close>. The zone placer assigns the 24 positions
  (0,0) ... (5,3) in row-major order to the first 24 blocks, and the list that
  \<^verbatim>\<open>_reorganize_blocks\<close> returns holds the last 6 blocks only, unplaced.
\<close>

theorem reorganize_thirty_active_blocks:
  "reorganize_blocks (map active_block [0..<30]) default_zones default_grid_size =
     Inr (map active_block [24..<30])
 \<and> map_sum id (\<lambda>(popped, remaining, grid). (map position popped, remaining))
      (place_blocks_in_zone (map active_block [0..<30])
         \<lparr>zone_x = 0, zone_y = 0, zone_w = 6, zone_h = 4\<rparr> (empty_grid default_grid_size)) =
    Inr ([Some (0, 0), Some (1, 0), Some (2, 0), Some (3, 0), Some (4, 0), Some (5, 0),
          Some (0, 1), Some (1, 1), Some (2, 1), Some (3, 1), Some (4, 1), Some (5, 1),
          Some (0, 2), Some (1, 2), Some (2, 2), Some (3, 2), Some (4, 2), Some (5, 2),
          Some (0, 3), Some (1, 3), Some (2, 3), Some (3, 3), Some (4, 3), Some (5, 3)],
         map active_block [24..<30])"
  by code_simp

text \<open>
  Claim C6, evaluated on a fresh project with 25 recent source files and the default
  configuration, reorganized twice with nothing else touching the project: the statistics
  written by the first call count one file, those written by the second call count none.
\<close>

theorem reorganize_twice_stats_differ:
  "map_option stats
     (read_file (snd (grid_reorganize ''2026-01-02T09:00:00'' ''20260102-090000'' (fresh_project 25)))
        current_layout_path) =
     Some (Some \<lparr>total_files = 1, placed_files = 0,
                  by_category = [(''active'', 1)], by_type = [(''code'', 1)]\<rparr>)
 \<and> map_option stats
     (read_file
        (snd (grid_reorganize ''2026-01-02T09:00:05'' ''20260102-090005''
          (snd (grid_reorganize ''2026-01-02T09:00:00'' ''20260102-090000'' (fresh_project 25)))))
        current_layout_path) =
     Some (Some \<lparr>total_files = 0, placed_files = 0, by_category = [], by_type = []\<rparr>)"
  by code_simp

lemma grouped_Nil [simp]: "grouped_by_category []"
  by (simp add: grouped_by_category_def)

lemma grouped_Cons [simp]:
  "grouped_by_category ((k, l) # g) \<longleftrightarrow> list_all (\<lambda>b. category b = k) l \<and> grouped_by_category g"
  by (simp add: grouped_by_category_def)

lemma place_cells_remaining:
  "place_cells cells popped blks grid = Inr (p, r, g) \<Longrightarrow> set r \<subseteq> set blks"
proof (induction cells popped blks grid rule: place_cells.induct)
  case (1 popped blks grid)
  then show ?case by simp
next
  case (2 x y cells popped blks grid)
  show ?case
  proof (cases "y \<ge> int (length grid)")
    case True
    with 2 show ?thesis by simp
  next
    case y: False
    show ?thesis
    proof (cases "getitem grid 0")
      case (Inl e)
      with 2 y show ?thesis by simp
    next
      case row0: (Inr row0)
      show ?thesis
      proof (cases "x \<ge> int (length row0)")
        case True
        with 2 y row0 show ?thesis by simp
      next
        case x: False
        show ?thesis
        proof (cases "getitem grid y")
          case (Inl e)
          with 2 y row0 x show ?thesis by simp
        next
          case row: (Inr row)
          show ?thesis
          proof (cases "getitem row x")
            case (Inl e)
            with 2 y row0 x row show ?thesis by simp
          next
            case occ: (Inr occupied)
            show ?thesis
            proof (cases occupied)
              case True
              with 2 y row0 x row occ show ?thesis by simp
            next
              case free: False
              show ?thesis
              proof (cases blks)
                case Nil
                with 2 y row0 x row occ free show ?thesis by simp
              next
                case (Cons b rest)
                show ?thesis
                proof (cases "mark_cell grid y x")
                  case (Inl e)
                  with 2 y row0 x row occ free Cons show ?thesis by simp
                next
                  case (Inr grid')
                  have "place_cells cells (popped @ [b\<lparr>placed := True, position := Some (x, y)\<rparr>])
                          rest grid' = Inr (p, r, g)"
                    using "2.prems" y row0 x row occ free Cons Inr by simp
                  from "2.IH"(4)[OF y row0 x row occ free Cons Inr this]
                  show ?thesis using Cons by auto
                qed
              qed
            qed
          qed
        qed
      qed
    qed
  qed
qed

lemma place_groups_keeps:
  "list_all (\<lambda>(k, l). list_all (P k) l) g \<Longrightarrow> place_groups g zs grid = Inr (g', grid')
     \<Longrightarrow> list_all (\<lambda>(k, l). list_all (P k) l) g'"
proof (induction g arbitrary: grid g')
  case Nil
  then show ?case by simp
next
  case (Cons a g)
  obtain k l where a: "a = (k, l)" by (cases a)
  show ?case
  proof (cases "map_of zs (zone_name_of k)")
    case None
    with Cons.prems a obtain rest' where
      "place_groups g zs grid = Inr (rest', grid')" "g' = (k, l) # rest'"
      by (auto split: sum.splits)
    with Cons.IH[of grid rest'] Cons.prems a show ?thesis by simp
  next
    case (Some zone)
    with Cons.prems a obtain popped remaining grid1 rest' where
      pz: "place_blocks_in_zone l zone grid = Inr (popped, remaining, grid1)"
      and pg: "place_groups g zs grid1 = Inr (rest', grid')" and g': "g' = (k, remaining) # rest'"
      by (auto split: sum.splits)
    have "set remaining \<subseteq> set l"
      using pz place_cells_remaining unfolding place_blocks_in_zone_def by blast
    then have "list_all (P k) remaining"
      using Cons.prems(1) a by (auto simp: list_all_iff)
    with Cons.IH[OF _ pg] Cons.prems(1) a g' show ?thesis by simp
  qed
qed

lemma place_groups_grouped:
  "grouped_by_category g \<Longrightarrow> place_groups g zs grid = Inr (g', grid')
     \<Longrightarrow> grouped_by_category g'"
  unfolding grouped_by_category_def by (rule place_groups_keeps)

text \<open>
  What the pops leave in the lists is never placed: no block of a list that
  \<^verbatim>\<open>_reorganize_blocks\<close> returns has \<open>placed = True\<close> or a position.
\<close>

lemma reorganize_blocks_unplaced:
  assumes "reorganize_blocks bs zs gs = Inr res"
  shows "list_all (\<lambda>b. \<not> placed b \<and> position b = None) res"
proof -
  let ?Q = "\<lambda>b. \<not> placed b \<and> position b = None"
  let ?g0 = "map (\<lambda>(k, l). (k, map unplace l)) (categorize bs)"
  from assms obtain g' grid' where
    pg: "place_groups ?g0 zs (empty_grid gs) = Inr (g', grid')" and r: "res = concat (map snd g')"
    by (auto simp: reorganize_blocks_def split: sum.splits)
  have "list_all (\<lambda>(k, l). list_all (\<lambda>b. ?Q b) l) ?g0"
    by (auto simp: list_all_iff unplace_def)
  from place_groups_keeps[where P = "\<lambda>k. ?Q", OF this pg]
  show ?thesis unfolding r by (auto simp: list_all_iff)
qed

lemma place_groups_absent_kept:
  "map_of zs (zone_name_of c) = None \<Longrightarrow> place_groups g zs grid = Inr (g', grid')
     \<Longrightarrow> filter (\<lambda>(k, l). k = c) g' = filter (\<lambda>(k, l). k = c) g"
proof (induction g arbitrary: grid g')
  case Nil
  then show ?case by simp
next
  case (Cons a g)
  obtain k l where a: "a = (k, l)" by (cases a)
  show ?case
  proof (cases "map_of zs (zone_name_of k)")
    case None
    with Cons.prems a obtain rest' where
      "place_groups g zs grid = Inr (rest', grid')" "g' = (k, l) # rest'"
      by (auto split: sum.splits)
    with Cons.IH[of grid rest'] Cons.prems a show ?thesis by simp
  next
    case (Some zone)
    with Cons.prems a obtain popped remaining grid1 rest' where
      pg: "place_groups g zs grid1 = Inr (rest', grid')" and g': "g' = (k, remaining) # rest'"
      by (auto split: sum.splits)
    have "k \<noteq> c" using Some Cons.prems(1) by auto
    with Cons.IH[OF Cons.prems(1) pg] a g' show ?thesis by simp
  qed
qed

lemma place_groups_skip:
  "map_of zs (zone_name_of c) = None \<Longrightarrow>
   place_groups (filter (\<lambda>(k, l). k \<noteq> c) g) zs grid =
     map_sum id (\<lambda>(g', grid'). (filter (\<lambda>(k, l). k \<noteq> c) g', grid')) (place_groups g zs grid)"
proof (induction g arbitrary: grid)
  case Nil
  then show ?case by simp
next
  case (Cons a g)
  obtain k l where a: "a = (k, l)" by (cases a)
  show ?case
  proof (cases "k = c")
    case True
    then show ?thesis using Cons a
      by (cases "place_groups g zs grid") (auto split: prod.splits)
  next
    case False
    show ?thesis
    proof (cases "map_of zs (zone_name_of k)")
      case None
      then show ?thesis using Cons a False
        by (cases "place_groups g zs grid") (auto split: prod.splits)
    next
      case (Some zone)
      show ?thesis
      proof (cases "place_blocks_in_zone l zone grid")
        case (Inl e)
        then show ?thesis using a False Some by simp
      next
        case (Inr t)
        obtain popped remaining grid1 where t: "t = (popped, remaining, grid1)" by (cases t)
        show ?thesis using Cons.IH[OF Cons.prems, of grid1] a False Some Inr t
          by (cases "place_groups g zs grid1") (auto split: prod.splits)
      qed
    qed
  qed
qed

lemma concat_filter_keys:
  "grouped_by_category g \<Longrightarrow>
   filter (\<lambda>b. P (category b)) (concat (map snd g)) = concat (map snd (filter (\<lambda>(k, l). P k) g))"
proof (induction g)
  case Nil
  then show ?case by simp
next
  case (Cons a g)
  obtain k l where a: "a = (k, l)" by (cases a)
  have all: "list_all (\<lambda>b. category b = k) l" using Cons.prems a by simp
  have "filter (\<lambda>b. P (category b)) l = (if P k then l else [])"
    using all by (induction l) auto
  with Cons a show ?case by simp
qed

lemma add_to_category_keys:
  "map fst (add_to_category b g) =
     (if category b \<in> set (map fst g) then map fst g else map fst g @ [category b])"
proof (induction g)
  case Nil
  then show ?case by simp
next
  case (Cons a g)
  obtain k l where a: "a = (k, l)" by (cases a)
  show ?case
  proof (cases "k = category b")
    case True
    then show ?thesis using a by simp
  next
    case False
    then have "category b \<in> set (map fst (a # g)) \<longleftrightarrow> category b \<in> set (map fst g)"
      using a by auto
    then show ?thesis using Cons.IH a False by (simp del: set_map)
  qed
qed

lemma add_to_category_grouped:
  "grouped_by_category g \<Longrightarrow> grouped_by_category (add_to_category b g)"
  by (induction g) auto

lemma grouped_no_key:
  "grouped_by_category g \<Longrightarrow> c \<notin> set (map fst g)
     \<Longrightarrow> filter (\<lambda>b. category b = c) (concat (map snd g)) = []"
proof (induction g)
  case Nil
  then show ?case by simp
next
  case (Cons a g)
  obtain k l where a: "a = (k, l)" by (cases a)
  have "k \<noteq> c" using Cons.prems(2) a by auto
  moreover have "list_all (\<lambda>b. category b = k) l" using Cons.prems(1) a by simp
  ultimately have "filter (\<lambda>b. category b = c) l = []"
    by (auto simp: list_all_iff filter_empty_conv)
  moreover have "filter (\<lambda>b. category b = c) (concat (map snd g)) = []"
    using Cons a by simp
  ultimately show ?case using a by simp
qed

lemma add_to_category_filter:
  "grouped_by_category g \<Longrightarrow> distinct (map fst g) \<Longrightarrow>
   filter (\<lambda>b. category b = c) (concat (map snd (add_to_category b g))) =
     filter (\<lambda>b. category b = c) (concat (map snd g)) @ (if category b = c then [b] else [])"
proof (induction g)
  case Nil
  then show ?case by simp
next
  case (Cons a g)
  obtain k l where a: "a = (k, l)" by (cases a)
  show ?case
  proof (cases "k = category b")
    case True
    have "filter (\<lambda>b. category b = c) (concat (map snd g)) = []" if "category b = c"
      using grouped_no_key[of g c] Cons.prems a True that by simp
    then show ?thesis using a True by simp
  next
    case False
    then show ?thesis using Cons a by simp
  qed
qed

lemma categorize_snoc: "categorize (bs @ [b]) = add_to_category b (categorize bs)"
  by (simp add: categorize_def)

lemma categorize_invariant:
  "grouped_by_category (categorize bs) \<and> distinct (map fst (categorize bs))"
proof (induction bs rule: rev_induct)
  case Nil
  then show ?case by (simp add: categorize_def)
next
  case (snoc b bs)
  then show ?case
    by (simp add: categorize_snoc add_to_category_grouped add_to_category_keys)
qed

lemma categorize_filter:
  "filter (\<lambda>b. category b = c) (concat (map snd (categorize bs))) = filter (\<lambda>b. category b = c) bs"
proof (induction bs rule: rev_induct)
  case Nil
  then show ?case by (simp add: categorize_def)
next
  case (snoc b bs)
  then show ?case
    using categorize_invariant[of bs] by (simp add: categorize_snoc add_to_category_filter)
qed

lemma add_to_category_other:
  "category b \<noteq> c \<Longrightarrow>
   filter (\<lambda>(k, l). k \<noteq> c) (add_to_category b g) = add_to_category b (filter (\<lambda>(k, l). k \<noteq> c) g)"
  by (induction g) auto

lemma add_to_category_same:
  "category b = c \<Longrightarrow>
   filter (\<lambda>(k, l). k \<noteq> c) (add_to_category b g) = filter (\<lambda>(k, l). k \<noteq> c) g"
  by (induction g) auto

lemma categorize_without:
  "categorize (filter (\<lambda>b. category b \<noteq> c) bs) = filter (\<lambda>(k, l). k \<noteq> c) (categorize bs)"
proof (induction bs rule: rev_induct)
  case Nil
  then show ?case by (simp add: categorize_def)
next
  case (snoc b bs)
  then show ?case
    by (simp add: categorize_snoc add_to_category_other add_to_category_same)
qed

lemma category_unplace [simp]: "category (unplace b) = category b"
  by (simp add: unplace_def)

lemma unplaced_grouped:
  "grouped_by_category g \<Longrightarrow> grouped_by_category (map (\<lambda>(k, l). (k, map unplace l)) g)"
  by (induction g) (auto simp: list_all_iff)

lemma unplaced_concat:
  "concat (map snd (map (\<lambda>(k, l). (k, map unplace l)) g)) = map unplace (concat (map snd g))"
  by (induction g) auto

lemma unplaced_without:
  "map (\<lambda>(k, l). (k, map unplace l)) (filter (\<lambda>(k, l). k \<noteq> c) g) =
     filter (\<lambda>(k, l). k \<noteq> c) (map (\<lambda>(k, l). (k, map unplace l)) g)"
  by (induction g) auto

lemma filter_unplace:
  "filter (\<lambda>b. category b = c) (map unplace xs) = map unplace (filter (\<lambda>b. category b = c) xs)"
  by (induction xs) auto

text \<open>
  Claim C10. Let \<open>c\<close> be a category whose zone name, looked up in the category to zone
  table with default \<open>archive\<close>, is not a key of \<open>zones\<close>. Then the reorganization treats
  the blocks of the other categories, errors included, exactly as it does when the blocks
  of category \<open>c\<close> are left out of the input, and whenever it returns a list, the blocks of
  category \<open>c\<close> in that list are the blocks of category \<open>c\<close> of the input, in input order,
  each with \<open>placed = False\<close> and no position.
\<close>

theorem absent_zone_group_skipped:
  assumes absent: "map_of zs (zone_name_of c) = None"
  shows "reorganize_blocks (filter (\<lambda>b. category b \<noteq> c) bs) zs gs =
           map_sum id (filter (\<lambda>b. category b \<noteq> c)) (reorganize_blocks bs zs gs)
       \<and> (reorganize_blocks bs zs gs = Inr res \<longrightarrow>
            filter (\<lambda>b. category b = c) res = map unplace (filter (\<lambda>b. category b = c) bs))"
proof -
  let ?U = "map (\<lambda>(k, l). (k, map unplace l))"
  let ?g0 = "?U (categorize bs)"
  have g0: "grouped_by_category ?g0"
    using categorize_invariant[of bs] unplaced_grouped by blast
  have skip: "place_groups (?U (categorize (filter (\<lambda>b. category b \<noteq> c) bs))) zs (empty_grid gs) =
      map_sum id (\<lambda>(g', grid'). (filter (\<lambda>(k, l). k \<noteq> c) g', grid'))
        (place_groups ?g0 zs (empty_grid gs))"
    using place_groups_skip[OF absent, of ?g0 "empty_grid gs"]
    by (simp add: categorize_without unplaced_without)
  have first: "reorganize_blocks (filter (\<lambda>b. category b \<noteq> c) bs) zs gs =
           map_sum id (filter (\<lambda>b. category b \<noteq> c)) (reorganize_blocks bs zs gs)"
  proof (cases "place_groups ?g0 zs (empty_grid gs)")
    case (Inl e)
    then show ?thesis using skip by (simp add: reorganize_blocks_def)
  next
    case (Inr t)
    obtain g' grid' where t: "t = (g', grid')" by (cases t)
    have "grouped_by_category g'"
      using place_groups_grouped[OF g0] Inr t by simp
    from concat_filter_keys[OF this, of "\<lambda>k. k \<noteq> c"]
    show ?thesis using skip Inr t by (simp add: reorganize_blocks_def)
  qed
  have second: "filter (\<lambda>b. category b = c) res = map unplace (filter (\<lambda>b. category b = c) bs)"
    if res: "reorganize_blocks bs zs gs = Inr res"
  proof -
    from res obtain g' grid' where
      pg: "place_groups ?g0 zs (empty_grid gs) = Inr (g', grid')" and r: "res = concat (map snd g')"
      by (auto simp: reorganize_blocks_def split: sum.splits)
    have g': "grouped_by_category g'" using place_groups_grouped[OF g0 pg] .
    have "filter (\<lambda>b. category b = c) res = concat (map snd (filter (\<lambda>(k, l). k = c) g'))"
      unfolding r using concat_filter_keys[OF g', of "\<lambda>k. k = c"] .
    also have "\<dots> = concat (map snd (filter (\<lambda>(k, l). k = c) ?g0))"
      using place_groups_absent_kept[OF absent pg] by simp
    also have "\<dots> = filter (\<lambda>b. category b = c) (concat (map snd ?g0))"
      using concat_filter_keys[OF g0, of "\<lambda>k. k = c"] by simp
    also have "\<dots> = map unplace (filter (\<lambda>b. category b = c) bs)"
      by (simp only: unplaced_concat filter_unplace categorize_filter)
    finally show ?thesis .
  qed
  show ?thesis using first second by blast
qed

text \<open>
  Claim C10, witness: a layout whose zones lack \<open>archive\<close>, with one block of category
  \<open>archive\<close> and one of category \<open>active\<close>.
\<close>

theorem absent_zone_group_skipped_witness:
  "map_of [(''active'', \<lparr>zone_x = 0, zone_y = 0, zone_w = 6, zone_h = 4\<rparr>)] (zone_name_of ''archive'') = None
 \<and> reorganize_blocks [archive_block, active_block 0]
       [(''active'', \<lparr>zone_x = 0, zone_y = 0, zone_w = 6, zone_h = 4\<rparr>)] default_grid_size =
     Inr [archive_block\<lparr>placed := False, position := None\<rparr>]
 \<and> filter (\<lambda>b. category b = ''archive'') [archive_block\<lparr>placed := False, position := None\<rparr>] =
     map unplace (filter (\<lambda>b. category b = ''archive'') [archive_block, active_block 0])
 \<and> reorganize_blocks (filter (\<lambda>b. category b \<noteq> ''archive'') [archive_block, active_block 0])
       [(''active'', \<lparr>zone_x = 0, zone_y = 0, zone_w = 6, zone_h = 4\<rparr>)] default_grid_size =
     Inr []"
proof -
  let ?zs = "[(''active'', \<lparr>zone_x = 0, zone_y = 0, zone_w = 6, zone_h = 4\<rparr>)]"
  have absent: "map_of ?zs (zone_name_of ''archive'') = None" by code_simp
  have run: "reorganize_blocks [archive_block, active_block 0] ?zs default_grid_size =
     Inr [archive_block\<lparr>placed := False, position := None\<rparr>]" by code_simp
  note inst = absent_zone_group_skipped[OF absent, of "[archive_block, active_block 0]" default_grid_size
                  "[archive_block\<lparr>placed := False, position := None\<rparr>]"]
  from inst run have a: "filter (\<lambda>b. category b = ''archive'') [archive_block\<lparr>placed := False, position := None\<rparr>] =
     map unplace (filter (\<lambda>b. category b = ''archive'') [archive_block, active_block 0])" by blast
  from inst run have b: "reorganize_blocks (filter (\<lambda>b. category b \<noteq> ''archive'') [archive_block, active_block 0])
       ?zs default_grid_size = Inr (filter (\<lambda>b. category b \<noteq> ''archive'') [archive_block\<lparr>placed := False, position := None\<rparr>])"
    by simp
  have c: "filter (\<lambda>b. category b \<noteq> ''archive'') [archive_block\<lparr>placed := False, position := None\<rparr>] = []"
    by (simp add: archive_block_def)
  show ?thesis using absent run a b c by simp
qed

end
